theory Spec2Isabelle
  imports Complex_Main "HOL-Library.Sublist" "HOL-Library.AList" "HOL-Library.Multiset"
begin

section \<open>Strings\<close>

text \<open>
  A JavaScript string is a sequence of code units. The model uses \<^typ>\<open>string\<close>, one
  \<^typ>\<open>char\<close> for one code unit in the range 0..255 (Latin-1), and reads a code unit
  as a number with \<^term>\<open>of_char\<close>.
\<close>

definition code :: "char \<Rightarrow> nat" where
  "code c = of_char c"

section \<open>Storage key codec (src/utils/storageUtil.ts)\<close>

text \<open>The configuration object \<^verbatim>\<open>storageConfig\<close> (also exported as \<^verbatim>\<open>globalConfig\<close>).\<close>

definition storageFontDatasKey :: string where
  "storageFontDatasKey = ''font-icons-''"

definition storageFileNames :: string where
  "storageFileNames = ''font-icons-saved-file-names''"

text \<open>
  \<^verbatim>\<open>filename.split('/').pop() || filename\<close>: the text after the last slash; when that
  is the empty string (which is falsy) the whole filename is used.
\<close>

definition lastSegment :: "string \<Rightarrow> string" where
  "lastSegment filename = rev (takeWhile (\<lambda>c. c \<noteq> CHR ''/'') (rev filename))"

definition basename :: "string \<Rightarrow> string" where
  "basename filename = (if lastSegment filename = [] then filename else lastSegment filename)"

text \<open>The character class \<^verbatim>\<open>[a-zA-Z0-9._-]\<close> of the regular expression.\<close>

definition safeChar :: "char \<Rightarrow> bool" where
  "safeChar c = (let n = code c in
     (97 \<le> n \<and> n \<le> 122) \<or> (65 \<le> n \<and> n \<le> 90) \<or> (48 \<le> n \<and> n \<le> 57)
     \<or> c = CHR ''.'' \<or> c = CHR ''_'' \<or> c = CHR ''-'')"

text \<open>\<^verbatim>\<open>basename.replace(/[^a-zA-Z0-9._-]/g, '_')\<close>, as storageUtil.ts has it.\<close>

definition sanitizeUnderscore :: "string \<Rightarrow> string" where
  "sanitizeUnderscore s = map (\<lambda>c. if safeChar c then c else CHR ''_'') s"

text \<open>
  \<^verbatim>\<open>basename.replace(/[^a-zA-Z0-9._-]/g, '')\<close>, as the revision of icon-list.vue that
  carries its own copy of the function has it.
\<close>

definition sanitizeDelete :: "string \<Rightarrow> string" where
  "sanitizeDelete s = filter safeChar s"

text \<open>
  \<^verbatim>\<open>btoa\<close>, the platform's base64 encoder: three code units give four characters of
  the alphabet A-Z, a-z, 0-9, +, /; the last group is padded with \<^verbatim>\<open>=\<close>. It raises
  only for code units above 255, which the string type of the model does not have.
\<close>

definition b64char :: "nat \<Rightarrow> char" where
  "b64char n =
     (if n < 26 then char_of (65 + n)
      else if n < 52 then char_of (97 + (n - 26))
      else if n < 62 then char_of (48 + (n - 52))
      else if n = 62 then CHR ''+'' else CHR ''/'')"

fun btoa :: "string \<Rightarrow> string" where
  "btoa [] = []"
| "btoa [a] =
     [b64char (code a div 4), b64char ((code a mod 4) * 16), CHR ''='', CHR ''='']"
| "btoa [a, b] =
     [b64char (code a div 4), b64char ((code a mod 4) * 16 + code b div 16),
      b64char ((code b mod 16) * 4), CHR ''='']"
| "btoa (a # b # c # rest) =
     [b64char (code a div 4), b64char ((code a mod 4) * 16 + code b div 16),
      b64char ((code b mod 16) * 4 + code c div 64), b64char (code c mod 64)] @ btoa rest"

definition maxLength :: nat where
  "maxLength = 50"

text \<open>\<^verbatim>\<open>s.slice(-n)\<close> for a positive n: the last n code units, the whole string when it is shorter.\<close>

definition sliceLast :: "nat \<Rightarrow> string \<Rightarrow> string" where
  "sliceLast n s = drop (length s - n) s"

text \<open>The part of \<^verbatim>\<open>getSafeStorageKey\<close> that follows the sanitising, common to both revisions.\<close>

definition keyOfSafeName :: "string \<Rightarrow> string" where
  "keyOfSafeName safeName =
     (if length safeName \<le> maxLength then storageFontDatasKey @ safeName
      else
        let hash = take 8 (btoa safeName);
            truncatedName = sliceLast (maxLength - 10) safeName
        in storageFontDatasKey @ truncatedName @ ''-'' @ hash)"

definition getSafeStorageKey :: "string \<Rightarrow> string" where
  "getSafeStorageKey filename = keyOfSafeName (sanitizeUnderscore (basename filename))"

definition getSafeStorageKey_local :: "string \<Rightarrow> string" where
  "getSafeStorageKey_local filename = keyOfSafeName (sanitizeDelete (basename filename))"


section \<open>Persistence store (src/utils/storageUtil.ts)\<close>

text \<open>
  \<^verbatim>\<open>localStorage\<close> is a map from keys to string values: \<^verbatim>\<open>getItem\<close> is the lookup
  (\<^term>\<open>None\<close> for \<^verbatim>\<open>null\<close>), \<^verbatim>\<open>setItem\<close> the update, \<^verbatim>\<open>removeItem\<close> the removal.
  \<^verbatim>\<open>JSON.parse\<close> and \<^verbatim>\<open>JSON.stringify\<close> belong to the platform and are parameters of the
  functions that call them, at the type the source declares for the parsed value; the
  parser raises \<^verbatim>\<open>SyntaxError\<close> on text that is not JSON.
\<close>

datatype exn = SyntaxError

type_synonym localStorage = "string \<rightharpoonup> string"

type_synonym 'a json_parse = "string \<Rightarrow> exn + 'a"

type_synonym 'a json_stringify = "'a \<Rightarrow> string"

text \<open>
  The \<^verbatim>\<open>try\<close> block of \<^verbatim>\<open>getSavedFileNameData\<close>: the registry as stored; the initial
  empty array when the key is absent or holds the empty string (which is falsy).
\<close>

definition getSavedFileNameData_try :: "string list json_parse \<Rightarrow> localStorage \<Rightarrow> exn + string list" where
  "getSavedFileNameData_try parse st =
     (case st storageFileNames of
        None \<Rightarrow> Inr []
      | Some existingData \<Rightarrow> if existingData = [] then Inr [] else parse existingData)"

text \<open>The \<^verbatim>\<open>catch\<close> branch logs the error and leaves the empty array to be returned.\<close>

definition getSavedFileNameData :: "string list json_parse \<Rightarrow> localStorage \<Rightarrow> string list" where
  "getSavedFileNameData parse st =
     (case getSavedFileNameData_try parse st of
        Inl error \<Rightarrow> []
      | Inr savedFileNames \<Rightarrow> savedFileNames)"

definition saveFileNameData ::
  "string list json_parse \<Rightarrow> string list json_stringify \<Rightarrow> string \<Rightarrow> localStorage \<Rightarrow> localStorage" where
  "saveFileNameData parse stringify filename st =
     (let savedFileNames = getSavedFileNameData parse st in
      if filename \<in> set savedFileNames then st
      else st(storageFileNames \<mapsto> stringify (savedFileNames @ [filename])))"

text \<open>
  The icon record. A code point is a non-negative integer; the two optional fields are
  \<^term>\<open>None\<close> when the property is \<^verbatim>\<open>undefined\<close>.
\<close>

record IconProps =
  unicode :: nat
  iconName :: string
  viewBox :: string
  svgPath :: string
  isEditing :: "bool option"
  editingName :: "string option"

text \<open>
  The \<^verbatim>\<open>try\<close> block of \<^verbatim>\<open>getFontData\<close>: \<^term>\<open>Inr (Some savedIcons)\<close> is its
  \<^verbatim>\<open>return savedIcons\<close>, \<^term>\<open>Inr None\<close> is leaving the block without a return (the
  key is absent or holds the empty string), \<^term>\<open>Inl error\<close> is the exception of the parser.
\<close>

definition getFontData_try ::
  "IconProps list json_parse \<Rightarrow> string \<Rightarrow> localStorage \<Rightarrow> exn + IconProps list option" where
  "getFontData_try parse filename st =
     (let storageKey = getSafeStorageKey filename in
      case st storageKey of
        None \<Rightarrow> Inr None
      | Some storedData \<Rightarrow>
          if storedData = [] then Inr None
          else (case parse storedData of
                  Inl error \<Rightarrow> Inl error
                | Inr savedIcons \<Rightarrow> Inr (Some savedIcons)))"

text \<open>\<^verbatim>\<open>getFontData\<close>: the \<^verbatim>\<open>catch\<close> branch logs the error; then \<^verbatim>\<open>return []\<close>.\<close>

definition getFontData :: "IconProps list json_parse \<Rightarrow> string \<Rightarrow> localStorage \<Rightarrow> IconProps list" where
  "getFontData parse filename st =
     (case getFontData_try parse filename st of
        Inr (Some savedIcons) \<Rightarrow> savedIcons
      | Inr None \<Rightarrow> []
      | Inl error \<Rightarrow> [])"

definition saveFontData ::
  "IconProps list json_stringify \<Rightarrow> string \<Rightarrow> IconProps list \<Rightarrow> localStorage \<Rightarrow> localStorage" where
  "saveFontData stringify filename iconProps st =
     (let storageKey = getSafeStorageKey filename in st(storageKey \<mapsto> stringify iconProps))"

text \<open>
  \<^verbatim>\<open>deleteStorageData\<close>: the registry is read after the font data is removed;
  \<^verbatim>\<open>indexOf\<close> and \<^verbatim>\<open>splice(index, 1)\<close> remove the first occurrence of the filename.
\<close>

definition deleteStorageData ::
  "string list json_parse \<Rightarrow> string list json_stringify \<Rightarrow> string \<Rightarrow> localStorage \<Rightarrow> localStorage" where
  "deleteStorageData parse stringify filename st =
     (let storageKey = getSafeStorageKey filename;
          st1 = st(storageKey := None);
          savedFileNames = getSavedFileNameData parse st1
      in if filename \<in> set savedFileNames
         then st1(storageFileNames \<mapsto> stringify (remove1 filename savedFileNames))
         else st1)"

section \<open>Icon list controller (src/components/icon-list.vue)\<close>

text \<open>
  Icon records are objects: the two arrays \<^verbatim>\<open>allIconList\<close> and \<^verbatim>\<open>iconList\<close> hold
  references to them, and an assignment to a field of a record is seen through every
  array that holds the record. The model keeps the records in a heap, a function from
  references to records, and the arrays as lists of references; \<open>nextRef\<close> is the
  first reference that no record has been allocated at.
\<close>

type_synonym ref = nat

record list_state =
  heap :: "ref \<Rightarrow> IconProps"
  nextRef :: ref
  allIconList :: "ref list"
  iconList :: "ref list"
  isDownloading :: bool

text \<open>
  An array of new records (the result of \<^verbatim>\<open>JSON.parse\<close>, or the array that
  \<^verbatim>\<open>generatorIconList\<close> builds) is allocated at the next free references.
\<close>

definition allocRefs :: "list_state \<Rightarrow> IconProps list \<Rightarrow> ref list" where
  "allocRefs s icons = [nextRef s ..< nextRef s + length icons]"

definition allocIcons :: "IconProps list \<Rightarrow> list_state \<Rightarrow> list_state" where
  "allocIcons icons s =
     s\<lparr>heap := (\<lambda>r. if nextRef s \<le> r \<and> r < nextRef s + length icons
                     then icons ! (r - nextRef s) else heap s r),
       nextRef := nextRef s + length icons\<rparr>"

text \<open>The records an array of references stands for.\<close>

definition deref :: "list_state \<Rightarrow> ref list \<Rightarrow> IconProps list" where
  "deref s refs = map (heap s) refs"

text \<open>
  The font object of the parsing library, as far as \<^verbatim>\<open>generatorIconList\<close> reads it: a
  glyph has an optional code point and an optional name; \<open>glyph_bbox\<close> is what
  \<^verbatim>\<open>getPath().getBoundingBox()\<close> returns (x1, y1, x2, y2) and \<open>glyph_svg\<close> what
  \<^verbatim>\<open>getPath().toSVG(2)\<close> returns. Numbers are reals (the rounding of
  the platform's floating point is not modelled) and are printed into the template
  string by the parameter \<open>numStr\<close>.
\<close>

record glyph =
  glyph_unicode :: "nat option"
  glyph_name :: "string option"
  glyph_bbox :: "real \<times> real \<times> real \<times> real"
  glyph_svg :: string

record font =
  glyphs :: "glyph list option"

text \<open>\<^verbatim>\<open>glyph.name || ''\<close>: an undefined or empty name gives the empty string.\<close>

definition nameOrEmpty :: "string option \<Rightarrow> string" where
  "nameOrEmpty n = (case n of None \<Rightarrow> [] | Some v \<Rightarrow> v)"

text \<open>\<^verbatim>\<open>!glyph.unicode\<close>: true when the code point is undefined or 0.\<close>

definition noUnicode :: "glyph \<Rightarrow> bool" where
  "noUnicode g = (case glyph_unicode g of None \<Rightarrow> True | Some u \<Rightarrow> u = 0)"

definition glyphIcon :: "(real \<Rightarrow> string) \<Rightarrow> glyph \<Rightarrow> IconProps" where
  "glyphIcon numStr g =
     (case glyph_bbox g of (x1, y1, x2, y2) \<Rightarrow>
       \<lparr>unicode = the (glyph_unicode g),
        iconName = nameOrEmpty (glyph_name g),
        viewBox = numStr x1 @ '' '' @ numStr y1 @ '' '' @ numStr (x2 - x1) @ '' '' @ numStr (y2 - y1),
        svgPath = glyph_svg g,
        isEditing = Some False,
        editingName = Some (nameOrEmpty (glyph_name g))\<rparr>)"

definition generatorIconList :: "(real \<Rightarrow> string) \<Rightarrow> font \<Rightarrow> IconProps list" where
  "generatorIconList numStr fnt =
     (case glyphs fnt of
        None \<Rightarrow> []
      | Some gs \<Rightarrow> map (glyphIcon numStr) (filter (\<lambda>g. \<not> noUnicode g) gs))"

text \<open>The properties of the component: the parsed font and the name of its file.\<close>

record props =
  props_font :: "font option"
  props_filename :: "string option"

text \<open>\<^verbatim>\<open>!props.filename\<close>: true when the name is undefined or the empty string.\<close>

definition noFilename :: "props \<Rightarrow> bool" where
  "noFilename p = (case props_filename p of None \<Rightarrow> True | Some f \<Rightarrow> f = [])"

text \<open>
  \<^verbatim>\<open>loadSavedIconData\<close> returns whether the cached records were loaded. Nothing in its
  \<^verbatim>\<open>try\<close> block raises in the model (\<^verbatim>\<open>getFontData\<close> has caught the parser's
  exception), so its \<^verbatim>\<open>catch\<close> branch has no counterpart.
\<close>

definition loadSavedIconData ::
  "IconProps list json_parse \<Rightarrow> props \<Rightarrow> localStorage \<Rightarrow> list_state \<Rightarrow> bool \<times> list_state" where
  "loadSavedIconData parse p st s =
     (if noFilename p then (False, s)
      else
        let savedIcons = getFontData parse (the (props_filename p)) st in
        if length savedIcons > 0
        then (let refs = allocRefs s savedIcons
              in (True, (allocIcons savedIcons s)\<lparr>allIconList := refs, iconList := refs\<rparr>))
        else (False, s))"

definition watchEffect ::
  "IconProps list json_parse \<Rightarrow> (real \<Rightarrow> string) \<Rightarrow> props \<Rightarrow> localStorage \<Rightarrow> list_state \<Rightarrow> list_state" where
  "watchEffect parse numStr p st s =
     (case loadSavedIconData parse p st s of
        (hasLoadedFromCache, s1) \<Rightarrow>
          if hasLoadedFromCache then s1
          else (case props_font p of
                  None \<Rightarrow> s1\<lparr>allIconList := [], iconList := []\<rparr>
                | Some fnt \<Rightarrow>
                    let newIcons = generatorIconList numStr fnt;
                        refs = allocRefs s1 newIcons
                    in (allocIcons newIcons s1)\<lparr>allIconList := refs, iconList := refs\<rparr>))"

text \<open>
  \<^verbatim>\<open>toLowerCase\<close> on the code units of the model: the letters A-Z and the Latin-1
  capitals 192..222 other than the multiplication sign 215 move up by 32.
\<close>

definition lowerChar :: "char \<Rightarrow> char" where
  "lowerChar c = (let n = code c in
     if (65 \<le> n \<and> n \<le> 90) \<or> (192 \<le> n \<and> n \<le> 222 \<and> n \<noteq> 215) then char_of (n + 32) else c)"

definition toLowerCase :: "string \<Rightarrow> string" where
  "toLowerCase s = map lowerChar s"

text \<open>\<^verbatim>\<open>s.includes(t)\<close>: \<open>t\<close> occurs in \<open>s\<close> as a contiguous run of code units.\<close>

definition startsWith :: "string \<Rightarrow> string \<Rightarrow> bool" where
  "startsWith s t = (take (length t) s = t)"

fun includesStr :: "string \<Rightarrow> string \<Rightarrow> bool" where
  "includesStr [] t = (t = [])"
| "includesStr (c # cs) t = (startsWith (c # cs) t \<or> includesStr cs t)"

definition handleSearch :: "string \<Rightarrow> list_state \<Rightarrow> list_state" where
  "handleSearch text s =
     s\<lparr>iconList := filter (\<lambda>item. includesStr (toLowerCase (iconName (heap s item))) (toLowerCase text))
                      (allIconList s)\<rparr>"




text \<open>
  \<^verbatim>\<open>startEditing\<close>: the loop runs over \<^verbatim>\<open>iconList.value\<close>, the filtered view, and
  writes through each reference; then the two assignments to the record clicked on.
\<close>

definition closeEditing :: "ref list \<Rightarrow> (ref \<Rightarrow> IconProps) \<Rightarrow> (ref \<Rightarrow> IconProps)" where
  "closeEditing items h = fold (\<lambda>item h'. h'(item := (h' item)\<lparr>isEditing := Some False\<rparr>)) items h"

definition startEditing :: "ref \<Rightarrow> list_state \<Rightarrow> list_state" where
  "startEditing icon s =
     (let h1 = closeEditing (iconList s) (heap s);
          h2 = h1(icon := (h1 icon)\<lparr>isEditing := Some True\<rparr>);
          h3 = h2(icon := (h2 icon)\<lparr>editingName := Some (iconName (h2 icon))\<rparr>)
      in s\<lparr>heap := h3\<rparr>)"

text \<open>\<^verbatim>\<open>trim\<close>: the white space among the code units of the model is 9..13, 32 and 160.\<close>

definition whiteSpace :: "char \<Rightarrow> bool" where
  "whiteSpace c = (let n = code c in (9 \<le> n \<and> n \<le> 13) \<or> n = 32 \<or> n = 160)"

definition trim :: "string \<Rightarrow> string" where
  "trim s = rev (dropWhile whiteSpace (rev (dropWhile whiteSpace s)))"

text \<open>
  \<^verbatim>\<open>finishEditing\<close>: \<^verbatim>\<open>icon.editingName?.trim()\<close> is falsy when the staging name is
  undefined or trims to the empty string, and the name is then left as it is.
\<close>

definition finishEditing :: "ref \<Rightarrow> list_state \<Rightarrow> list_state" where
  "finishEditing icon s =
     (let h = heap s;
          h1 = (case editingName (h icon) of
                  None \<Rightarrow> h
                | Some n \<Rightarrow> if trim n = [] then h else h(icon := (h icon)\<lparr>iconName := trim n\<rparr>))
      in s\<lparr>heap := h1(icon := (h1 icon)\<lparr>isEditing := Some False\<rparr>)\<rparr>)"

definition cancelEditing :: "ref \<Rightarrow> list_state \<Rightarrow> list_state" where
  "cancelEditing icon s = s\<lparr>heap := (heap s)(icon := (heap s icon)\<lparr>isEditing := Some False\<rparr>)\<rparr>"

text \<open>\<^verbatim>\<open>v-if="!svg.isEditing"\<close>: a record is being edited when the flag is true.\<close>

definition editing :: "list_state \<Rightarrow> ref \<Rightarrow> bool" where
  "editing s r = (isEditing (heap s r) = Some True)"


subsection \<open>Batch PNG export\<close>

text \<open>The decimal digits of a code point, as the template string prints a number.\<close>

function showNat :: "nat \<Rightarrow> string" where
  "showNat n = (if n < 10 then [char_of (48 + n)] else showNat (n div 10) @ [char_of (48 + n mod 10)])"
  by pat_completeness auto
termination
  by (relation "measure id") auto

text \<open>The name of an archive entry: the icon's name, or \<^verbatim>\<open>icon_\<close> and the code point when the name is empty.\<close>

definition entryName :: "string \<Rightarrow> IconProps \<Rightarrow> string" where
  "entryName ext icon =
     (if iconName icon = [] then ''icon_'' @ showNat (unicode icon) else iconName icon) @ ''.'' @ ext"

text \<open>
  The archive object of the zip library holds its entries in \<^verbatim>\<open>zip.files\<close>, an object
  keyed by entry name, whose keys are listed in the order in which they were first set.
  \<^verbatim>\<open>zip.file(name, data)\<close> first makes sure that the folders of the name exist
  (\<^verbatim>\<open>folderAdd\<close> on \<^verbatim>\<open>parentFolder(name)\<close>, which adds a folder entry with a
  trailing slash unless there is one, after doing the same for the folder's own parent)
  and then sets the property \<open>name\<close>, so a second entry of the same name replaces the
  first.
\<close>

datatype 'b zip_entry = ZipFile 'b | ZipFolder

type_synonym 'b zip = "(string \<times> 'b zip_entry) list"

text \<open>\<^verbatim>\<open>path.lastIndexOf(c)\<close>: the index of the last occurrence, \<^term>\<open>None\<close> for -1.\<close>

definition lastIndexOf :: "string \<Rightarrow> char \<Rightarrow> nat option" where
  "lastIndexOf s c =
     (let k = length (takeWhile (\<lambda>x. x \<noteq> c) (rev s))
      in if k = length s then None else Some (length s - 1 - k))"

definition forceTrailingSlash :: "string \<Rightarrow> string" where
  "forceTrailingSlash path = (if path \<noteq> [] \<and> last path = CHR ''/'' then path else path @ ''/'')"

text \<open>
  \<^verbatim>\<open>parentFolder\<close>: a trailing slash is dropped; the result is the text before the last
  slash when that slash is not the first code unit, and the empty string otherwise.
\<close>

definition parentFolder :: "string \<Rightarrow> string" where
  "parentFolder path0 =
     (let path = (if path0 \<noteq> [] \<and> last path0 = CHR ''/'' then butlast path0 else path0)
      in case lastIndexOf path CHR ''/'' of
           None \<Rightarrow> []
         | Some lastSlash \<Rightarrow> if lastSlash > 0 then take lastSlash path else [])"

function folderAdd :: "string \<Rightarrow> 'b zip \<Rightarrow> 'b zip" where
  "folderAdd name0 z =
     (let name = forceTrailingSlash name0
      in if name \<in> fst ` set z then z
         else let parent = parentFolder name;
                  z1 = (if parent \<noteq> [] then folderAdd parent z else z)
              in AList.update name ZipFolder z1)"
  by pat_completeness auto
termination
proof (relation "measure (\<lambda>(name0, z). length name0)")
  show "wf (measure (\<lambda>(name0, z :: 'b zip). length name0))" by simp
next
  fix name0 :: string and z :: "'b zip" and name parent
  assume name: "name = forceTrailingSlash name0" and parent: "parent = parentFolder name"
    and nonempty: "parent \<noteq> []"
  let ?p = "if name \<noteq> [] \<and> last name = CHR ''/'' then butlast name else name"
  let ?k = "length (takeWhile (\<lambda>x. x \<noteq> CHR ''/'') (rev ?p))"
  have p: "length ?p \<le> length name0"
    by (simp add: name forceTrailingSlash_def)
  have "?k \<le> length (rev ?p)" by (rule length_takeWhile_le)
  then have k: "?k \<le> length ?p" by simp
  from nonempty have "parent = take (length ?p - 1 - ?k) ?p" and "?k \<noteq> length ?p"
    unfolding parent parentFolder_def lastIndexOf_def Let_def
    by (simp_all split: if_splits)
  then have "length parent < length ?p"
    using k by simp
  with p show "((parent, z), (name0, z)) \<in> measure (\<lambda>(name0, z). length name0)"
    by simp
qed

definition zip_file :: "string \<Rightarrow> 'b \<Rightarrow> 'b zip \<Rightarrow> 'b zip" where
  "zip_file name data z =
     (let parent = parentFolder name;
          z1 = (if parent \<noteq> [] then folderAdd parent z else z)
      in AList.update name (ZipFile data) z1)"

text \<open>
  The callback of \<^verbatim>\<open>allIconList.value.map\<close> in \<^verbatim>\<open>downloadAllPng\<close>: \<open>svgToPng\<close> gives
  the blob of the promise, or \<^term>\<open>None\<close> when the promise is rejected; a rejection is
  logged and the icon skipped.
\<close>

definition convertIcon :: "(IconProps \<Rightarrow> 'b option) \<Rightarrow> IconProps \<Rightarrow> 'b zip \<Rightarrow> 'b zip" where
  "convertIcon svgToPng icon z =
     (case svgToPng icon of
        Some pngBlob \<Rightarrow> zip_file (entryName ''png'' icon) pngBlob z
      | None \<Rightarrow> z)"

text \<open>
  The conversions run concurrently, and each callback adds its entry when its own
  promise settles: \<open>convertAll\<close> takes the records in the order in which their
  conversions settle.
\<close>

definition convertAll :: "(IconProps \<Rightarrow> 'b option) \<Rightarrow> IconProps list \<Rightarrow> 'b zip" where
  "convertAll svgToPng settled = fold (convertIcon svgToPng) settled []"

text \<open>
  \<^verbatim>\<open>filename.replace(/\.[^/.]+$/, '')\<close>: a final dot followed by one or more code units
  other than dot and slash is removed.
\<close>

definition stripExtension :: "string \<Rightarrow> string" where
  "stripExtension f =
     (let ext = takeWhile (\<lambda>c. c \<noteq> CHR ''.'') (rev f)
      in if ext \<noteq> [] \<and> length ext < length f \<and> CHR ''/'' \<notin> set ext
         then take (length f - length ext - 1) f else f)"

definition baseFilename :: "string \<Rightarrow> props \<Rightarrow> string" where
  "baseFilename dflt p = (if noFilename p then dflt else stripExtension (the (props_filename p)))"

text \<open>
  What a call of \<^verbatim>\<open>downloadAllPng\<close> reports: nothing when an export is in flight; the
  error message of the \<^verbatim>\<open>catch\<close> block when no icon was converted; otherwise the
  success message with the archive that is downloaded, or the error message of the
  promise of \<^verbatim>\<open>generateAsync\<close> when that is rejected (\<open>generateOk\<close> is false).
\<close>

datatype 'b export_outcome =
  Ignored
| ConvertFailed
| ZipFailed
| Downloaded string "'b zip"

text \<open>
  The flag \<^verbatim>\<open>isDownloading\<close> is set on entry. It is cleared at once in the \<^verbatim>\<open>catch\<close>
  block; after \<^verbatim>\<open>generateAsync\<close> it stays set until the timer of 3000 ms runs
  \<open>resetDownloading\<close>. The parameter \<open>completion\<close> is the scheduling of the platform: it
  gives the records of the collection in the order in which their conversions settle.
\<close>

definition downloadAllPng ::
  "(IconProps \<Rightarrow> 'b option) \<Rightarrow> (IconProps list \<Rightarrow> IconProps list) \<Rightarrow> ('b zip \<Rightarrow> bool) \<Rightarrow> props
     \<Rightarrow> list_state \<Rightarrow> 'b export_outcome \<times> list_state" where
  "downloadAllPng svgToPng completion generateOk p s =
     (if isDownloading s then (Ignored, s)
      else
        let s1 = s\<lparr>isDownloading := True\<rparr>;
            z = convertAll svgToPng (completion (deref s1 (allIconList s1)));
            zipFiles = map fst z
        in if length zipFiles = 0 then (ConvertFailed, s1\<lparr>isDownloading := False\<rparr>)
           else if generateOk z
             then (Downloaded (baseFilename ''icons-png'' p @ ''-png.zip'') z, s1)
             else (ZipFailed, s1))"

definition resetDownloading :: "list_state \<Rightarrow> list_state" where
  "resetDownloading s = s\<lparr>isDownloading := False\<rparr>"

section \<open>Icon detail controller (src/components/icon-detail.vue)\<close>

text \<open>
  The refs of the component, and the element behind the template ref
  \<^verbatim>\<open>svgElement\<close> with the two inline styles the component assigns; the element is
  \<^term>\<open>None\<close> while it is not mounted.
\<close>

record svg_element =
  style_fill :: string
  style_transform :: string

record detail_state =
  isModalVisible :: bool
  currentIcon :: "ref option"
  rotationAngle :: real
  scaleFactor :: real
  positionOffset :: "real \<times> real"
  isGridVisible :: bool
  iconDimension :: string
  svgElement :: "svg_element option"

datatype detail_error = TypeError

definition openModal :: "ref \<Rightarrow> detail_state \<Rightarrow> detail_state" where
  "openModal icon d =
     d\<lparr>isModalVisible := True,
       currentIcon := Some icon,
       rotationAngle := 0,
       scaleFactor := 1,
       positionOffset := (0, 0)\<rparr>"

text \<open>
  The template: the \<^verbatim>\<open>svg\<close> element is in the body of \<^verbatim>\<open>n-modal\<close>, which is mounted
  while \<^verbatim>\<open>isModalVisible\<close> holds, under \<^verbatim>\<open>v-if="currentIcon"\<close>. \<open>render\<close> is the
  update of the page after a change of the refs: an element that stays mounted is kept,
  an element that is mounted anew has no inline style, and when the modal is not shown
  no element is mounted.
\<close>

definition newElement :: svg_element where
  "newElement = \<lparr>style_fill = [], style_transform = []\<rparr>"

definition render :: "detail_state \<Rightarrow> detail_state" where
  "render d =
     (if isModalVisible d \<and> currentIcon d \<noteq> None
      then (case svgElement d of None \<Rightarrow> d\<lparr>svgElement := Some newElement\<rparr> | Some el \<Rightarrow> d)
      else d\<lparr>svgElement := None\<rparr>)"

text \<open>
  A detail session starts with \<^verbatim>\<open>openModal\<close> and the rendering that follows it, and
  ends when the modal is closed: \<^verbatim>\<open>v-model:show\<close> sets \<^verbatim>\<open>isModalVisible\<close> to false.
\<close>

definition openSession :: "ref \<Rightarrow> detail_state \<Rightarrow> detail_state" where
  "openSession icon d = render (openModal icon d)"

definition closeSession :: "detail_state \<Rightarrow> detail_state" where
  "closeSession d = render (d\<lparr>isModalVisible := False\<rparr>)"

text \<open>
  \<^verbatim>\<open>updateColor\<close>: the guard tests the ref object itself, which is never falsy, so the
  assignment through \<^verbatim>\<open>svgElementRef.value!\<close> raises when no element is mounted. The
  style declaration of the platform does not keep the assigned text: the parameter
  \<open>cssFill\<close> gives the value it stores for a text (the serialised colour), or
  \<^term>\<open>None\<close> when the text is not a valid value and the assignment is ignored.
\<close>

definition updateColor ::
  "(string \<Rightarrow> string option) \<Rightarrow> string \<Rightarrow> detail_state \<Rightarrow> detail_error + detail_state" where
  "updateColor cssFill color d =
     (case svgElement d of
        None \<Rightarrow> Inl TypeError
      | Some el \<Rightarrow>
          Inr (d\<lparr>svgElement :=
                  Some (case cssFill color of None \<Rightarrow> el | Some v \<Rightarrow> el\<lparr>style_fill := v\<rparr>)\<rparr>))"

definition toggleGridVisibility :: "detail_state \<Rightarrow> detail_state" where
  "toggleGridVisibility d = d\<lparr>isGridVisible := \<not> isGridVisible d\<rparr>"

section \<open>Example data\<close>

text \<open>
  The two records of the specification's scenario, a third record that shares the name of
  the first, and list states over them.
\<close>

definition exampleA :: IconProps where
  "exampleA = \<lparr>unicode = 65, iconName = ''A'', viewBox = ''0 0 10 10'', svgPath = ''<path/>'',
     isEditing = Some False, editingName = Some ''A''\<rparr>"

definition exampleB :: IconProps where
  "exampleB = \<lparr>unicode = 66, iconName = ''B'', viewBox = ''0 0 10 10'', svgPath = ''<path/>'',
     isEditing = Some False, editingName = Some ''B''\<rparr>"

definition exampleA2 :: IconProps where
  "exampleA2 = \<lparr>unicode = 97, iconName = ''A'', viewBox = ''0 0 5 5'', svgPath = ''<path/>'',
     isEditing = Some False, editingName = Some ''A''\<rparr>"

definition exampleList :: list_state where
  "exampleList = \<lparr>heap = (\<lambda>r. if r = 0 then exampleA else exampleB), nextRef = 2,
     allIconList = [0, 1], iconList = [0, 1], isDownloading = False\<rparr>"

definition exampleListOne :: list_state where
  "exampleListOne = \<lparr>heap = (\<lambda>r. exampleB), nextRef = 1,
     allIconList = [0], iconList = [0], isDownloading = False\<rparr>"

definition exampleListDup :: list_state where
  "exampleListDup = \<lparr>heap = (\<lambda>r. if r = 0 then exampleA else if r = 1 then exampleA2 else exampleB),
     nextRef = 3, allIconList = [0, 1, 2], iconList = [0, 1, 2], isDownloading = False\<rparr>"

definition exampleEmptyList :: list_state where
  "exampleEmptyList = \<lparr>heap = (\<lambda>r. exampleA), nextRef = 0,
     allIconList = [], iconList = [], isDownloading = False\<rparr>"

text \<open>A conversion that fails for the record named B and gives the path markup as the blob otherwise.\<close>

definition exampleSvgToPng :: "IconProps \<Rightarrow> string option" where
  "exampleSvgToPng icon = (if iconName icon = ''B'' then None else Some (svgPath icon))"

text \<open>
  A font with one glyph, and a printer for the non-negative whole numbers of its bounding box.
\<close>

definition exampleFont :: font where
  "exampleFont = \<lparr>glyphs = Some [\<lparr>glyph_unicode = Some 66, glyph_name = Some ''B'',
     glyph_bbox = (0, 0, 10, 10), glyph_svg = ''<path/>''\<rparr>]\<rparr>"

definition exampleNumStr :: "real \<Rightarrow> string" where
  "exampleNumStr x = showNat (nat \<lfloor>x\<rfloor>)"

text \<open>
  JSON texts and a parser that agrees with \<^verbatim>\<open>JSON.parse\<close> on them and raises on every other
  text; a printer that agrees with \<^verbatim>\<open>JSON.stringify\<close> on arrays of strings that need no
  escape character.
\<close>

definition exampleIconsText :: string where
  \<open>exampleIconsText =
     ''[{"unicode":65,"iconName":"A","viewBox":"0 0 10 10","svgPath":"<path/>","isEditing":false,"editingName":"A"}]''\<close>

definition exampleParseIcons :: "IconProps list json_parse" where
  "exampleParseIcons t =
     (if t = ''[]'' then Inr [] else if t = exampleIconsText then Inr [exampleA] else Inl SyntaxError)"

definition exampleStringifyIcons :: "IconProps list json_stringify" where
  "exampleStringifyIcons icons = (if icons = [exampleA] then exampleIconsText else ''[]'')"

definition exampleNamesText :: string where
  \<open>exampleNamesText = ''["a.ttf"]''\<close>

definition exampleParseNames :: "string list json_parse" where
  "exampleParseNames t =
     (if t = ''[]'' then Inr [] else if t = exampleNamesText then Inr [''a.ttf''] else Inl SyntaxError)"

fun joinComma :: "string list \<Rightarrow> string" where
  "joinComma [] = []"
| "joinComma [x] = x"
| "joinComma (x # y # ys) = x @ '','' @ joinComma (y # ys)"

definition exampleStringifyNames :: "string list json_stringify" where
  \<open>exampleStringifyNames names = ''['' @ joinComma (map (\<lambda>n. ''"'' @ n @ ''"'') names) @ '']''\<close>

text \<open>
  Component properties for the file a.ttf, with and without a parsed font, and stores
  that hold a saved record for it: the text of \<^term>\<open>exampleIconsText\<close>, and the text
  of the empty array, which is what saving an empty collection writes.
\<close>

definition exampleProps :: props where
  "exampleProps = \<lparr>props_font = Some exampleFont, props_filename = Some ''a.ttf''\<rparr>"

definition examplePropsNoFont :: props where
  "examplePropsNoFont = \<lparr>props_font = None, props_filename = Some ''a.ttf''\<rparr>"

definition exampleStoreSaved :: localStorage where
  "exampleStoreSaved = [getSafeStorageKey ''a.ttf'' \<mapsto> exampleIconsText]"

definition exampleStoreEmptyRecord :: localStorage where
  "exampleStoreEmptyRecord = [getSafeStorageKey ''a.ttf'' \<mapsto> ''[]'']"

text \<open>
  A record whose name has a slash, in a collection with the failing record B.
\<close>

definition exampleSlash :: IconProps where
  "exampleSlash = \<lparr>unicode = 67, iconName = ''a/b'', viewBox = ''0 0 10 10'', svgPath = ''<path/>'',
     isEditing = Some False, editingName = Some ''a/b''\<rparr>"

text \<open>
  The detail controller before its first session, a style declaration that stores the
  colour \<^verbatim>\<open>#ff0000\<close> as \<^verbatim>\<open>rgb(255, 0, 0)\<close> and ignores every other text, and the
  controller in a session for record 0 after that colour was chosen.
\<close>

definition exampleDetail :: detail_state where
  "exampleDetail = \<lparr>isModalVisible = False, currentIcon = None, rotationAngle = 0, scaleFactor = 1,
     positionOffset = (0, 0), isGridVisible = False, iconDimension = ''200px'', svgElement = None\<rparr>"

definition exampleCssFill :: "string \<Rightarrow> string option" where
  "exampleCssFill t = (if t = ''#ff0000'' then Some ''rgb(255, 0, 0)'' else None)"

definition exampleColoured :: detail_state where
  "exampleColoured = \<lparr>isModalVisible = True, currentIcon = Some 0, rotationAngle = 0, scaleFactor = 1,
     positionOffset = (0, 0), isGridVisible = False, iconDimension = ''200px'',
     svgElement = Some \<lparr>style_fill = ''rgb(255, 0, 0)'', style_transform = []\<rparr>\<rparr>"

text \<open>The operations of the list on its records, for runs of them.\<close>

datatype list_op =
  Search string
| StartEditing ref
| FinishEditing ref
| CancelEditing ref

fun listStep :: "list_op \<Rightarrow> list_state \<Rightarrow> list_state" where
  "listStep (Search text) s = handleSearch text s"
| "listStep (StartEditing icon) s = startEditing icon s"
| "listStep (FinishEditing icon) s = finishEditing icon s"
| "listStep (CancelEditing icon) s = cancelEditing icon s"

fun isSearch :: "list_op \<Rightarrow> bool" where
  "isSearch (Search text) = True"
| "isSearch op = False"

text \<open>At most one record of the canonical collection is being edited.\<close>

definition atMostOneEditing :: "list_state \<Rightarrow> bool" where
  "atMostOneEditing s =
     (\<forall>a \<in> set (allIconList s). \<forall>b \<in> set (allIconList s). editing s a \<and> editing s b \<longrightarrow> a = b)"

text \<open>Operations on the filename registry, for runs of additions and removals.\<close>

datatype registry_op = RegistryAdd string | RegistryRemove string

fun registryStep ::
  "string list json_parse \<Rightarrow> string list json_stringify \<Rightarrow> registry_op \<Rightarrow> localStorage \<Rightarrow> localStorage" where
  "registryStep parse stringify (RegistryAdd filename) st = saveFileNameData parse stringify filename st"
| "registryStep parse stringify (RegistryRemove filename) st = deleteStorageData parse stringify filename st"

text \<open>The assumption on the platform's codec: a printed array is not the empty text and parses back.\<close>

definition codecOk :: "'a json_parse \<Rightarrow> 'a json_stringify \<Rightarrow> bool" where
  "codecOk parse stringify = (\<forall>v. parse (stringify v) = Inr v \<and> stringify v \<noteq> [])"

section \<open>Properties of the storage key codec\<close>


lemma code_char_of: "n < 256 \<Longrightarrow> code (char_of n) = n"
  by (simp add: code_def)

lemma code_eq_iff: "code c = code d \<longleftrightarrow> c = d"
  unfolding code_def by (rule of_char_eq_iff)

lemma safeChar_iff:
  "safeChar c \<longleftrightarrow> (97 \<le> code c \<and> code c \<le> 122) \<or> (65 \<le> code c \<and> code c \<le> 90)
     \<or> (48 \<le> code c \<and> code c \<le> 57) \<or> code c = 46 \<or> code c = 95 \<or> code c = 45"
proof -
  have "code CHR ''.'' = 46" "code CHR ''_'' = 95" "code CHR ''-'' = 45"
    by (simp_all add: code_def)
  then have "c = CHR ''.'' \<longleftrightarrow> code c = 46" "c = CHR ''_'' \<longleftrightarrow> code c = 95" "c = CHR ''-'' \<longleftrightarrow> code c = 45"
    using code_eq_iff [of c "CHR ''.''"] code_eq_iff [of c "CHR ''_''"] code_eq_iff [of c "CHR ''-''"]
    by simp_all
  then show ?thesis by (simp add: safeChar_def Let_def)
qed



lemma safeChar_code_less_128: "safeChar c \<Longrightarrow> code c < 128"
  unfolding safeChar_iff by linarith

lemma mod_64_below_128: "n < 128 \<Longrightarrow> n mod 64 = (if n < 64 then n else n - (64::nat))"
  by (simp add: le_mod_geq)

lemma safeChar_code_mod_64: "safeChar c \<Longrightarrow> code c mod 64 < 62"
proof -
  assume c: "safeChar c"
  then have "code c < 128" by (rule safeChar_code_less_128)
  then have "code c mod 64 = (if code c < 64 then code c else code c - 64)"
    by (rule mod_64_below_128)
  moreover have "(if code c < 64 then code c else code c - 64) < 62"
    using c unfolding safeChar_iff by (simp split: if_splits) linarith
  ultimately show ?thesis by simp
qed


lemma safeChar_b64char: "n < 62 \<Longrightarrow> safeChar (b64char n)"
proof -
  assume n: "n < 62"
  consider "n < 26" | "26 \<le> n" "n < 52" | "52 \<le> n" "n < 62"
    using n by linarith
  then show ?thesis
  proof cases
    case 1
    then have "code (b64char n) = 65 + n" by (simp add: b64char_def code_char_of)
    with 1 show ?thesis unfolding safeChar_iff by linarith
  next
    case 2
    then have "code (b64char n) = 97 + (n - 26)" by (simp add: b64char_def code_char_of)
    with 2 show ?thesis unfolding safeChar_iff by linarith
  next
    case 3
    then have "code (b64char n) = 48 + (n - 52)" by (simp add: b64char_def code_char_of)
    with 3 show ?thesis unfolding safeChar_iff by linarith
  qed
qed

lemma safeChar_sanitizeUnderscore: "list_all safeChar (sanitizeUnderscore s)"
proof -
  have "safeChar CHR ''_''" by (simp add: safeChar_def)
  then show ?thesis by (induction s) (simp_all add: sanitizeUnderscore_def)
qed

lemma safeChar_sanitizeDelete: "list_all safeChar (sanitizeDelete s)"
  by (simp add: sanitizeDelete_def list_all_iff)

lemma six_elems:
  "6 \<le> length s \<Longrightarrow> \<exists>a b c d e f rest. s = a # b # c # d # e # f # rest"
  by (auto simp: numeral_eq_Suc Suc_le_length_iff)


lemma b64_group_safe:
  assumes "safeChar a" "safeChar b" "safeChar c"
  shows "safeChar (b64char (code a div 4))"
    and "safeChar (b64char ((code a mod 4) * 16 + code b div 16))"
    and "safeChar (b64char ((code b mod 16) * 4 + code c div 64))"
    and "safeChar (b64char (code c mod 64))"
proof -
  have a: "code a < 128" and b: "code b < 128" and c: "code c < 128"
    using assms by (simp_all add: safeChar_code_less_128)
  from a have "code a div 4 < 62" by linarith
  then show "safeChar (b64char (code a div 4))" by (rule safeChar_b64char)
  from b have "code b div 16 < 8" by linarith
  moreover have "code a mod 4 < 4" by simp
  ultimately have "(code a mod 4) * 16 + code b div 16 < 62" by linarith
  then show "safeChar (b64char ((code a mod 4) * 16 + code b div 16))" by (rule safeChar_b64char)
  from c have "code c div 64 < 2" by linarith
  moreover have "code b mod 16 < 16" by simp
  ultimately have "(code b mod 16) * 4 + code c div 64 < 62" by linarith
  then show "safeChar (b64char ((code b mod 16) * 4 + code c div 64))" by (rule safeChar_b64char)
  show "safeChar (b64char (code c mod 64))"
    using assms(3) by (intro safeChar_b64char safeChar_code_mod_64)
qed

lemma btoa_take8:
  assumes "list_all safeChar s" and "6 \<le> length s"
  shows "length (take 8 (btoa s)) = 8 \<and> list_all safeChar (take 8 (btoa s))"
proof -
  obtain a b c d e f rest where s: "s = a # b # c # d # e # f # rest"
    using six_elems [OF assms(2)] by blast
  have safe: "safeChar a" "safeChar b" "safeChar c" "safeChar d" "safeChar e" "safeChar f"
    using assms(1) by (simp_all add: s)
  have "take 8 (btoa s) =
     [b64char (code a div 4), b64char ((code a mod 4) * 16 + code b div 16),
      b64char ((code b mod 16) * 4 + code c div 64), b64char (code c mod 64),
      b64char (code d div 4), b64char ((code d mod 4) * 16 + code e div 16),
      b64char ((code e mod 16) * 4 + code f div 64), b64char (code f mod 64)]"
    by (simp add: s)
  then show ?thesis
    using b64_group_safe [OF safe(1,2,3)] b64_group_safe [OF safe(4,5,6)] by simp
qed

lemma sliceLast_length: "length (sliceLast n s) = min n (length s)"
  by (simp add: sliceLast_def)

lemma sliceLast_safe: "list_all safeChar s \<Longrightarrow> list_all safeChar (sliceLast n s)"
  by (simp add: sliceLast_def list_all_iff) (meson in_set_dropD)

lemma keyOfSafeName_props:
  assumes "list_all safeChar s"
  shows "length (keyOfSafeName s) \<le> length storageFontDatasKey + 50"
    and "take (length storageFontDatasKey) (keyOfSafeName s) = storageFontDatasKey"
    and "list_all safeChar (drop (length storageFontDatasKey) (keyOfSafeName s))"
proof -
  have dash: "safeChar CHR ''-''" by (simp add: safeChar_def)
  show "length (keyOfSafeName s) \<le> length storageFontDatasKey + 50"
  proof (cases "length s \<le> maxLength")
    case True
    then show ?thesis by (simp add: keyOfSafeName_def maxLength_def)
  next
    case False
    then have "6 \<le> length s" by (simp add: maxLength_def)
    from btoa_take8 [OF assms this] have "length (take 8 (btoa s)) = 8" ..
    with False show ?thesis
      by (simp add: keyOfSafeName_def Let_def sliceLast_length maxLength_def del: length_take)
  qed
  show "take (length storageFontDatasKey) (keyOfSafeName s) = storageFontDatasKey"
    by (simp add: keyOfSafeName_def Let_def)
  show "list_all safeChar (drop (length storageFontDatasKey) (keyOfSafeName s))"
  proof (cases "length s \<le> maxLength")
    case True
    with assms show ?thesis by (simp add: keyOfSafeName_def)
  next
    case False
    then have "6 \<le> length s" by (simp add: maxLength_def)
    from btoa_take8 [OF assms this] have "list_all safeChar (take 8 (btoa s))" ..
    with False assms dash show ?thesis
      by (simp add: keyOfSafeName_def Let_def sliceLast_safe)
  qed
qed


text \<open>
  Claim C3. For every filename, the derived key is a function of the filename alone
  (the function reads nothing but its argument and the constant prefix), it is at most
  50 code units longer than the namespace prefix, it starts with the prefix, and every
  code unit after the prefix is in the class \<^verbatim>\<open>[a-zA-Z0-9._-]\<close>; filenames longer
  than the threshold of 50 are included, since the eight base64 characters taken from
  a sanitised name are letters and digits. This holds for the function of
  storageUtil.ts and for the copy in the earlier icon-list.vue alike.
\<close>

theorem getSafeStorageKey_bounded_safe:
  "length (getSafeStorageKey filename) \<le> length storageFontDatasKey + 50
   \<and> take (length storageFontDatasKey) (getSafeStorageKey filename) = storageFontDatasKey
   \<and> list_all safeChar (drop (length storageFontDatasKey) (getSafeStorageKey filename))
   \<and> length (getSafeStorageKey_local filename) \<le> length storageFontDatasKey + 50
   \<and> take (length storageFontDatasKey) (getSafeStorageKey_local filename) = storageFontDatasKey
   \<and> list_all safeChar (drop (length storageFontDatasKey) (getSafeStorageKey_local filename))"
  unfolding getSafeStorageKey_def getSafeStorageKey_local_def
  using keyOfSafeName_props [OF safeChar_sanitizeUnderscore, of "basename filename"]
    keyOfSafeName_props [OF safeChar_sanitizeDelete, of "basename filename"]
  by blast

lemmas key_defs = getSafeStorageKey_def getSafeStorageKey_local_def keyOfSafeName_def
  sanitizeUnderscore_def sanitizeDelete_def basename_def lastSegment_def safeChar_def code_def
  maxLength_def storageFontDatasKey_def

text \<open>
  Claim C9, as amended. For the filename \<^verbatim>\<open>My Font!.ttf\<close> the function of storageUtil.ts
  replaces the space and the exclamation mark by an underscore each and returns the prefix
  followed by \<^verbatim>\<open>My_Font_.ttf\<close>; the copy of the function in the earlier icon-list.vue
  removes the two characters and returns the prefix followed by \<^verbatim>\<open>MyFont.ttf\<close>. In both
  the sanitised name is no longer than the threshold, so nothing is truncated.
\<close>

theorem deriveKey_example:
  "getSafeStorageKey ''My Font!.ttf'' = storageFontDatasKey @ ''My_Font_.ttf''
   \<and> getSafeStorageKey_local ''My Font!.ttf'' = storageFontDatasKey @ ''MyFont.ttf''
   \<and> length (sanitizeUnderscore (basename ''My Font!.ttf'')) \<le> maxLength
   \<and> length (sanitizeDelete (basename ''My Font!.ttf'')) \<le> maxLength"
  by (simp add: key_defs)

text \<open>
  Claim C9 as stated fails for storageUtil.ts: the key is not the prefix followed by the
  name with the two characters removed.
\<close>

theorem deriveKey_example_counterexample:
  "getSafeStorageKey ''My Font!.ttf'' \<noteq> storageFontDatasKey @ ''MyFont.ttf''"
  by (simp add: key_defs)

section \<open>Properties of the persistence store\<close>

text \<open>
  Claim C8. \<^verbatim>\<open>getFontData\<close> returns the empty array when the derived key is absent from
  the store, and when the stored text makes the parser raise; the function returns a
  value on every path, so the exception of the parser does not reach the caller.
\<close>

theorem getFontData_absent_or_unparsable:
  assumes "st (getSafeStorageKey filename) = None
           \<or> (\<exists>storedData e. st (getSafeStorageKey filename) = Some storedData \<and> parse storedData = Inl e)"
  shows "getFontData parse filename st = []"
  using assms by (auto simp: getFontData_def getFontData_try_def Let_def)

text \<open>Claim C8 at an empty store, and at a store whose text for the key does not parse.\<close>

theorem getFontData_absent_or_unparsable_witness:
  "getFontData exampleParseIcons ''a.ttf'' Map.empty = []
   \<and> getFontData exampleParseIcons ''a.ttf'' [getSafeStorageKey ''a.ttf'' \<mapsto> ''{not json''] = []"
proof -
  have "getFontData exampleParseIcons ''a.ttf'' Map.empty = []"
    by (rule getFontData_absent_or_unparsable) simp
  moreover have "getFontData exampleParseIcons ''a.ttf'' [getSafeStorageKey ''a.ttf'' \<mapsto> ''{not json''] = []"
    by (rule getFontData_absent_or_unparsable)
      (simp add: exampleParseIcons_def exampleIconsText_def)
  ultimately show ?thesis by simp
qed

text \<open>
  Claim C2. After \<^verbatim>\<open>saveFontData\<close> has written the records of a filename,
  \<^verbatim>\<open>getFontData\<close> for the same filename returns them, in any store that still holds under
  the derived key what the save wrote there. The platform's codec enters as the
  assumption that the printed text of these records is not empty and parses back to them.
\<close>

theorem saveFontData_getFontData_roundtrip:
  assumes "parse (stringify records) = Inr records"
    and "stringify records \<noteq> []"
    and "st' (getSafeStorageKey filename) = saveFontData stringify filename records st (getSafeStorageKey filename)"
  shows "getFontData parse filename st' = records"
  using assms by (simp add: getFontData_def getFontData_try_def saveFontData_def Let_def)

text \<open>Claim C2 at the record of the example and its JSON text.\<close>

theorem saveFontData_getFontData_roundtrip_witness:
  "getFontData exampleParseIcons ''a.ttf'' (saveFontData exampleStringifyIcons ''a.ttf'' [exampleA] Map.empty)
     = [exampleA]"
proof -
  have h1: "exampleParseIcons (exampleStringifyIcons [exampleA]) = Inr [exampleA]"
    by (simp add: exampleParseIcons_def exampleStringifyIcons_def exampleIconsText_def)
  have h2: "exampleStringifyIcons [exampleA] \<noteq> []"
    by (simp add: exampleStringifyIcons_def exampleIconsText_def)
  have h3: "saveFontData exampleStringifyIcons ''a.ttf'' [exampleA] Map.empty (getSafeStorageKey ''a.ttf'')
      = saveFontData exampleStringifyIcons ''a.ttf'' [exampleA] Map.empty (getSafeStorageKey ''a.ttf'')"
    by (rule refl)
  show ?thesis
    using h1 h2 h3 by (rule saveFontData_getFontData_roundtrip)
qed

subsection \<open>The filename registry\<close>

lemma getSavedFileNameData_set:
  assumes "parse (stringify names) = Inr names" and "stringify names \<noteq> []"
  shows "getSavedFileNameData parse (st(storageFileNames \<mapsto> stringify names)) = names"
  using assms by (simp add: getSavedFileNameData_def getSavedFileNameData_try_def)

lemma getSavedFileNameData_other_key:
  "k \<noteq> storageFileNames \<Longrightarrow> getSavedFileNameData parse (st(k := v)) = getSavedFileNameData parse st"
  by (simp add: getSavedFileNameData_def getSavedFileNameData_try_def)

lemma getSavedFileNameData_removed:
  "getSavedFileNameData parse (st(storageFileNames := None)) = []"
  by (simp add: getSavedFileNameData_def getSavedFileNameData_try_def)

lemma saveFileNameData_idempotent:
  "filename \<in> set (getSavedFileNameData parse st) \<Longrightarrow> saveFileNameData parse stringify filename st = st"
  by (simp add: saveFileNameData_def)

lemma saveFileNameData_registry:
  assumes "codecOk parse stringify"
  shows "getSavedFileNameData parse (saveFileNameData parse stringify filename st) =
     (if filename \<in> set (getSavedFileNameData parse st) then getSavedFileNameData parse st
      else getSavedFileNameData parse st @ [filename])"
  using assms by (simp add: saveFileNameData_def Let_def codecOk_def getSavedFileNameData_set)

lemma deleteStorageData_registry:
  assumes "codecOk parse stringify"
  shows "getSavedFileNameData parse (deleteStorageData parse stringify filename st) =
     (if getSafeStorageKey filename = storageFileNames then []
      else remove1 filename (getSavedFileNameData parse st))"
proof (cases "getSafeStorageKey filename = storageFileNames")
  case True
  then have "getSavedFileNameData parse (st(getSafeStorageKey filename := None)) = []"
    by (simp add: getSavedFileNameData_removed)
  with True show ?thesis by (simp add: deleteStorageData_def Let_def)
next
  case False
  then have "getSavedFileNameData parse (st(getSafeStorageKey filename := None)) = getSavedFileNameData parse st"
    by (rule getSavedFileNameData_other_key)
  with False assms show ?thesis
    by (simp add: deleteStorageData_def Let_def codecOk_def getSavedFileNameData_set remove1_idem)
qed

lemma deleteStorageData_absent_noop:
  assumes "getSafeStorageKey filename \<noteq> storageFileNames"
    and "filename \<notin> set (getSavedFileNameData parse st)"
  shows "deleteStorageData parse stringify filename st storageFileNames = st storageFileNames"
  using assms by (simp add: deleteStorageData_def Let_def getSavedFileNameData_other_key)

lemma registryStep_distinct:
  assumes "codecOk parse stringify" and "distinct (getSavedFileNameData parse st)"
  shows "distinct (getSavedFileNameData parse (registryStep parse stringify op st))"
  using assms
  by (cases op) (simp_all add: saveFileNameData_registry deleteStorageData_registry)

lemma registry_never_duplicates:
  assumes "codecOk parse stringify" and "distinct (getSavedFileNameData parse st)"
  shows "distinct (getSavedFileNameData parse (fold (registryStep parse stringify) ops st))"
  using assms(2)
proof (induction ops arbitrary: st)
  case Nil
  then show ?case by simp
next
  case (Cons op ops)
  from registryStep_distinct [OF assms(1) Cons.prems]
  show ?case by (simp add: Cons.IH)
qed

lemma registry_empty_start:
  "getSavedFileNameData parse Map.empty = []"
  by (simp add: getSavedFileNameData_def getSavedFileNameData_try_def)

text \<open>
  Claim C7 at the filename \<^verbatim>\<open>saved-file-names\<close>. Its derived key is the key of the
  registry itself, so \<^verbatim>\<open>deleteStorageData\<close> removes the registry: after a.ttf has been
  added to an empty registry, removing the absent filename \<^verbatim>\<open>saved-file-names\<close> leaves
  no registry at all, where the claim has a removal of an absent filename leave the
  registry as it is. (The lemmas above give what holds: no run of additions and removals
  produces a duplicate, an addition of a present filename changes nothing, and a removal
  of an absent filename changes nothing when the two keys differ.)
\<close>

theorem deleteStorageData_registry_key_collision:
  "getSavedFileNameData exampleParseNames
      (saveFileNameData exampleParseNames exampleStringifyNames ''a.ttf'' Map.empty) = [''a.ttf'']
   \<and> getSafeStorageKey ''saved-file-names'' = storageFileNames
   \<and> getSavedFileNameData exampleParseNames
      (deleteStorageData exampleParseNames exampleStringifyNames ''saved-file-names''
        (saveFileNameData exampleParseNames exampleStringifyNames ''a.ttf'' Map.empty)) = []
   \<and> deleteStorageData exampleParseNames exampleStringifyNames ''saved-file-names''
        (saveFileNameData exampleParseNames exampleStringifyNames ''a.ttf'' Map.empty) storageFileNames = None"
  by code_simp

section \<open>Properties of the icon list controller\<close>

lemma deref_alloc:
  "deref ((allocIcons icons s)\<lparr>allIconList := refs, iconList := refs\<rparr>) (allocRefs s icons) = icons"
proof -
  let ?n = "nextRef s"
  let ?h = "\<lambda>r. if ?n \<le> r \<and> r < ?n + length icons then icons ! (r - ?n) else heap s r"
  have "map ?h [?n ..< ?n + length icons] = icons" (is "?l = _")
  proof (rule nth_equalityI)
    show "length ?l = length icons" by simp
  next
    fix i assume "i < length ?l"
    then have "i < length icons" by simp
    then show "?l ! i = icons ! i" by simp
  qed
  then show ?thesis by (simp add: deref_def allocIcons_def allocRefs_def)
qed

lemma loadSavedIconData_loaded:
  assumes "\<not> noFilename p" and "getFontData parse (the (props_filename p)) st \<noteq> []"
  shows "fst (loadSavedIconData parse p st s)"
    and "deref (snd (loadSavedIconData parse p st s)) (allIconList (snd (loadSavedIconData parse p st s)))
         = getFontData parse (the (props_filename p)) st"
    and "iconList (snd (loadSavedIconData parse p st s)) = allIconList (snd (loadSavedIconData parse p st s))"
  using assms by (simp_all add: loadSavedIconData_def Let_def deref_alloc)

lemma loadSavedIconData_not_loaded:
  assumes "noFilename p \<or> getFontData parse (the (props_filename p)) st = []"
  shows "loadSavedIconData parse p st s = (False, s)"
  using assms by (auto simp: loadSavedIconData_def Let_def)

text \<open>
  Claim C4, as amended. When the font or the filename changes: (1) if the filename is
  not empty and the record stored for it loads as a non-empty array, that array becomes
  both the canonical and the filtered collection, whatever the font is (extraction is
  bypassed); (2) otherwise, if a font is present, the extracted records become both
  collections; (3) otherwise both collections are empty.
\<close>

theorem watchEffect_policy:
  "(\<not> noFilename p \<and> getFontData parse (the (props_filename p)) st \<noteq> [] \<longrightarrow>
      deref (watchEffect parse numStr p st s) (allIconList (watchEffect parse numStr p st s))
        = getFontData parse (the (props_filename p)) st
      \<and> iconList (watchEffect parse numStr p st s) = allIconList (watchEffect parse numStr p st s)
      \<and> watchEffect parse numStr p st s = watchEffect parse numStr' (p\<lparr>props_font := fnt'\<rparr>) st s)
   \<and> ((noFilename p \<or> getFontData parse (the (props_filename p)) st = []) \<and> props_font p = Some fnt \<longrightarrow>
      deref (watchEffect parse numStr p st s) (allIconList (watchEffect parse numStr p st s))
        = generatorIconList numStr fnt
      \<and> iconList (watchEffect parse numStr p st s) = allIconList (watchEffect parse numStr p st s))
   \<and> ((noFilename p \<or> getFontData parse (the (props_filename p)) st = []) \<and> props_font p = None \<longrightarrow>
      allIconList (watchEffect parse numStr p st s) = []
      \<and> iconList (watchEffect parse numStr p st s) = [])"
proof (intro conjI impI)
  assume a: "\<not> noFilename p \<and> getFontData parse (the (props_filename p)) st \<noteq> []"
  then have w: "watchEffect parse numStr p st s = snd (loadSavedIconData parse p st s)"
    using loadSavedIconData_loaded(1) [of p parse st s]
    by (cases "loadSavedIconData parse p st s") (simp add: watchEffect_def)
  show "deref (watchEffect parse numStr p st s) (allIconList (watchEffect parse numStr p st s))
        = getFontData parse (the (props_filename p)) st"
    using a by (simp add: w loadSavedIconData_loaded(2))
  show "iconList (watchEffect parse numStr p st s) = allIconList (watchEffect parse numStr p st s)"
    using a by (simp add: w loadSavedIconData_loaded(3))
  have "loadSavedIconData parse (p\<lparr>props_font := fnt'\<rparr>) st s = loadSavedIconData parse p st s"
    by (simp add: loadSavedIconData_def noFilename_def)
  then show "watchEffect parse numStr p st s = watchEffect parse numStr' (p\<lparr>props_font := fnt'\<rparr>) st s"
    using a loadSavedIconData_loaded(1) [of p parse st s]
    by (cases "loadSavedIconData parse p st s") (simp add: watchEffect_def)
next
  assume a: "(noFilename p \<or> getFontData parse (the (props_filename p)) st = []) \<and> props_font p = Some fnt"
  then have l: "loadSavedIconData parse p st s = (False, s)"
    by (simp add: loadSavedIconData_not_loaded)
  show "deref (watchEffect parse numStr p st s) (allIconList (watchEffect parse numStr p st s))
        = generatorIconList numStr fnt"
    using a by (simp add: watchEffect_def l Let_def deref_alloc)
  show "iconList (watchEffect parse numStr p st s) = allIconList (watchEffect parse numStr p st s)"
    using a by (simp add: watchEffect_def l Let_def)
next
  assume a: "(noFilename p \<or> getFontData parse (the (props_filename p)) st = []) \<and> props_font p = None"
  then have l: "loadSavedIconData parse p st s = (False, s)"
    by (simp add: loadSavedIconData_not_loaded)
  show "allIconList (watchEffect parse numStr p st s) = []"
    using a by (simp add: watchEffect_def l)
  show "iconList (watchEffect parse numStr p st s) = []"
    using a by (simp add: watchEffect_def l)
qed

text \<open>
  Claim C4 as stated fails when the stored record is the empty array (what saving an
  empty collection writes): a record exists for the filename, yet the collection is the
  one extracted from the font and not the stored one.
\<close>

theorem watchEffect_policy_counterexample:
  "exampleStoreEmptyRecord (getSafeStorageKey ''a.ttf'') = Some ''[]''
   \<and> getFontData exampleParseIcons ''a.ttf'' exampleStoreEmptyRecord = []
   \<and> deref (watchEffect exampleParseIcons exampleNumStr exampleProps exampleStoreEmptyRecord exampleEmptyList)
        (allIconList (watchEffect exampleParseIcons exampleNumStr exampleProps exampleStoreEmptyRecord exampleEmptyList))
      = [exampleB]
   \<and> deref (watchEffect exampleParseIcons exampleNumStr exampleProps exampleStoreEmptyRecord exampleEmptyList)
        (allIconList (watchEffect exampleParseIcons exampleNumStr exampleProps exampleStoreEmptyRecord exampleEmptyList))
      \<noteq> getFontData exampleParseIcons ''a.ttf'' exampleStoreEmptyRecord"
  by code_simp

text \<open>
  Claim C4, as amended, at a store with a saved record (the record is loaded, with the
  font and without it), at an empty store with a font (extraction) and without one.
\<close>

theorem watchEffect_policy_witness:
  "deref (watchEffect exampleParseIcons exampleNumStr exampleProps exampleStoreSaved exampleEmptyList)
        (allIconList (watchEffect exampleParseIcons exampleNumStr exampleProps exampleStoreSaved exampleEmptyList))
      = getFontData exampleParseIcons (the (props_filename exampleProps)) exampleStoreSaved
   \<and> deref (watchEffect exampleParseIcons exampleNumStr exampleProps Map.empty exampleEmptyList)
        (allIconList (watchEffect exampleParseIcons exampleNumStr exampleProps Map.empty exampleEmptyList))
      = generatorIconList exampleNumStr exampleFont
   \<and> allIconList (watchEffect exampleParseIcons exampleNumStr examplePropsNoFont Map.empty exampleEmptyList) = []"
proof -
  have h1: "\<not> noFilename exampleProps
      \<and> getFontData exampleParseIcons (the (props_filename exampleProps)) exampleStoreSaved \<noteq> []"
    by code_simp
  have h2: "(noFilename exampleProps
      \<or> getFontData exampleParseIcons (the (props_filename exampleProps)) Map.empty = [])
      \<and> props_font exampleProps = Some exampleFont"
    by code_simp
  have h3: "(noFilename examplePropsNoFont
      \<or> getFontData exampleParseIcons (the (props_filename examplePropsNoFont)) Map.empty = [])
      \<and> props_font examplePropsNoFont = None"
    by code_simp
  show ?thesis
    using h1 h2 h3
      watchEffect_policy [of exampleProps exampleParseIcons exampleStoreSaved exampleNumStr exampleEmptyList]
      watchEffect_policy [of exampleProps exampleParseIcons Map.empty exampleNumStr exampleEmptyList _ _ exampleFont]
      watchEffect_policy [of examplePropsNoFont exampleParseIcons Map.empty exampleNumStr exampleEmptyList]
    by blast
qed










subsection \<open>Inline editing\<close>

lemma closeEditing_isEditing:
  "isEditing (closeEditing items h r) = (if r \<in> set items then Some False else isEditing (h r))"
proof (induction items arbitrary: h)
  case Nil
  then show ?case by (simp add: closeEditing_def)
next
  case (Cons item items)
  have "closeEditing (item # items) h = closeEditing items (h(item := (h item)\<lparr>isEditing := Some False\<rparr>))"
    by (simp add: closeEditing_def)
  then show ?case by (simp add: Cons.IH)
qed

lemma startEditing_editing:
  "editing (startEditing icon s) r \<longleftrightarrow> r = icon \<or> (r \<notin> set (iconList s) \<and> editing s r)"
  by (simp add: startEditing_def editing_def Let_def closeEditing_isEditing)

lemma startEditing_lists:
  "allIconList (startEditing icon s) = allIconList s" "iconList (startEditing icon s) = iconList s"
  by (simp_all add: startEditing_def Let_def)

lemma startEditing_twice:
  assumes "a \<in> set (iconList s)" and "a \<noteq> b"
  shows "\<not> editing (startEditing b (startEditing a s)) a \<and> editing (startEditing b (startEditing a s)) b"
  using assms by (simp add: startEditing_editing startEditing_lists)

lemma startEditing_at_most_one_visible:
  assumes "\<forall>r. editing s r \<longrightarrow> r \<in> set (iconList s)"
  shows "editing (startEditing icon s) r \<longleftrightarrow> r = icon"
  using assms by (auto simp: startEditing_editing)

lemma finishEditing_editing:
  "editing (finishEditing icon s) r \<longleftrightarrow> r \<noteq> icon \<and> editing s r"
  by (simp add: finishEditing_def editing_def Let_def split: option.splits)

lemma cancelEditing_editing:
  "editing (cancelEditing icon s) r \<longleftrightarrow> r \<noteq> icon \<and> editing s r"
  by (simp add: cancelEditing_def editing_def)

lemma finishEditing_lists:
  "allIconList (finishEditing icon s) = allIconList s" "iconList (finishEditing icon s) = iconList s"
  by (simp_all add: finishEditing_def Let_def)

lemma cancelEditing_lists:
  "allIconList (cancelEditing icon s) = allIconList s" "iconList (cancelEditing icon s) = iconList s"
  by (simp_all add: cancelEditing_def)

lemma listStep_lists:
  "\<not> isSearch op \<Longrightarrow> allIconList (listStep op s) = allIconList s \<and> iconList (listStep op s) = iconList s"
  by (cases op) (simp_all add: startEditing_lists finishEditing_lists cancelEditing_lists)

lemma listStep_atMostOneEditing:
  assumes "\<not> isSearch op" and "set (allIconList s) \<subseteq> set (iconList s)" and "atMostOneEditing s"
  shows "atMostOneEditing (listStep op s)"
proof (cases op)
  case (Search t)
  with assms(1) show ?thesis by simp
next
  case (StartEditing icon)
  with assms(2) show ?thesis
    by (auto simp: atMostOneEditing_def startEditing_editing startEditing_lists)
next
  case (FinishEditing icon)
  with assms(3) show ?thesis
    by (auto simp: atMostOneEditing_def finishEditing_editing finishEditing_lists)
next
  case (CancelEditing icon)
  with assms(3) show ?thesis
    by (auto simp: atMostOneEditing_def cancelEditing_editing cancelEditing_lists)
qed

text \<open>
  While the filtered view shows the whole canonical collection, no run of edits (started,
  finished or cancelled, with no search among them) opens a second edit.
\<close>

lemma edits_without_search_atMostOneEditing:
  assumes "\<forall>op \<in> set ops. \<not> isSearch op"
    and "set (allIconList s) \<subseteq> set (iconList s)" and "atMostOneEditing s"
  shows "atMostOneEditing (fold listStep ops s)"
  using assms
proof (induction ops arbitrary: s)
  case Nil
  then show ?case by simp
next
  case (Cons op ops)
  from Cons.prems have op: "\<not> isSearch op" by simp
  have "atMostOneEditing (listStep op s)"
    using op Cons.prems(2,3) by (rule listStep_atMostOneEditing)
  moreover have "set (allIconList (listStep op s)) \<subseteq> set (iconList (listStep op s))"
    using Cons.prems(2) listStep_lists [OF op, of s] by simp
  moreover have "\<forall>op \<in> set ops. \<not> isSearch op"
    using Cons.prems(1) by simp
  ultimately show ?case
    using Cons.IH by simp
qed

text \<open>
  Claim C1 at a run with a search between two edits. The edit of record A is open; the
  search for b leaves only record B in the filtered view; \<^verbatim>\<open>startEditing\<close> on B closes
  the records of the filtered view only, so A and B are both being edited, in the
  canonical collection and, after a search for the empty text, in the filtered view.
  (The lemmas above give what holds: an edit closes every other record of the filtered
  view, so while the view shows the whole collection no run of edits opens a second one.)
\<close>

theorem startEditing_hidden_record_stays_open:
  "iconList (handleSearch ''b'' (startEditing 0 exampleList)) = [1]
   \<and> allIconList (startEditing 1 (handleSearch ''b'' (startEditing 0 exampleList))) = [0, 1]
   \<and> editing (startEditing 1 (handleSearch ''b'' (startEditing 0 exampleList))) 0
   \<and> editing (startEditing 1 (handleSearch ''b'' (startEditing 0 exampleList))) 1
   \<and> map (editing (handleSearch [] (startEditing 1 (handleSearch ''b'' (startEditing 0 exampleList)))))
        (iconList (handleSearch [] (startEditing 1 (handleSearch ''b'' (startEditing 0 exampleList)))))
      = [True, True]"
  by code_simp

section \<open>Properties of the batch PNG export\<close>

lemma lastIndexOf_absent: "c \<notin> set s \<Longrightarrow> lastIndexOf s c = None"
proof -
  assume "c \<notin> set s"
  then have "takeWhile (\<lambda>x. x \<noteq> c) (rev s) = rev s"
    by (auto simp: takeWhile_eq_all_conv)
  then have "length (takeWhile (\<lambda>x. x \<noteq> c) (rev s)) = length s"
    by (simp only: length_rev)
  then show ?thesis by (simp add: lastIndexOf_def Let_def)
qed

lemma parentFolder_no_slash: "CHR ''/'' \<notin> set name \<Longrightarrow> parentFolder name = []"
proof -
  assume a: "CHR ''/'' \<notin> set name"
  let ?p = "if name \<noteq> [] \<and> last name = CHR ''/'' then butlast name else name"
  from a have "CHR ''/'' \<notin> set ?p" by (auto dest: in_set_butlastD)
  then have "lastIndexOf ?p CHR ''/'' = None" by (rule lastIndexOf_absent)
  then show ?thesis by (simp add: parentFolder_def)
qed

text \<open>For a name without a slash no folder is added: the entry of that name is set.\<close>

lemma zip_file_no_slash:
  "CHR ''/'' \<notin> set name \<Longrightarrow> zip_file name data z = AList.update name (ZipFile data) z"
  by (simp add: zip_file_def parentFolder_no_slash)

text \<open>For a name with a slash the archive gets a folder entry as well.\<close>

lemma zip_file_slash_example:
  "map fst (convertAll exampleSvgToPng [exampleSlash, exampleB]) = [''a/'', ''a/b.png'']"
  by code_simp

lemma convert_fold_keys:
  assumes "distinct (map fst z)"
    and "\<forall>i \<in> set icons. svgToPng i \<noteq> None \<longrightarrow> CHR ''/'' \<notin> set (entryName ''png'' i)"
  shows "distinct (map fst (fold (convertIcon svgToPng) icons z))
   \<and> set (map fst (fold (convertIcon svgToPng) icons z)) =
       set (map fst z) \<union> entryName ''png'' ` {i \<in> set icons. svgToPng i \<noteq> None}"
  using assms
proof (induction icons arbitrary: z)
  case Nil
  then show ?case by simp
next
  case (Cons icon icons)
  let ?z = "convertIcon svgToPng icon z"
  have c: "?z = (case svgToPng icon of
      Some pngBlob \<Rightarrow> AList.update (entryName ''png'' icon) (ZipFile pngBlob) z | None \<Rightarrow> z)"
    using Cons.prems(2) by (simp add: convertIcon_def zip_file_no_slash split: option.splits)
  have d: "distinct (map fst ?z)"
    using Cons.prems(1) by (simp add: c distinct_update split: option.splits)
  have k: "set (map fst ?z) =
      set (map fst z) \<union> (if svgToPng icon = None then {} else {entryName ''png'' icon})"
    by (simp add: c dom_update split: option.splits)
  have r: "\<forall>i \<in> set icons. svgToPng i \<noteq> None \<longrightarrow> CHR ''/'' \<notin> set (entryName ''png'' i)"
    using Cons.prems(2) by simp
  from Cons.IH [OF d r] k show ?case by auto
qed

lemma convertAll_keys:
  assumes "\<forall>i \<in> set icons. svgToPng i \<noteq> None \<longrightarrow> CHR ''/'' \<notin> set (entryName ''png'' i)"
  shows "distinct (map fst (convertAll svgToPng icons))"
    and "set (map fst (convertAll svgToPng icons)) = entryName ''png'' ` {i \<in> set icons. svgToPng i \<noteq> None}"
  using convert_fold_keys [of "[]" icons svgToPng] assms by (simp_all add: convertAll_def)

lemma convertAll_length:
  assumes "\<forall>i \<in> set icons. svgToPng i \<noteq> None \<longrightarrow> CHR ''/'' \<notin> set (entryName ''png'' i)"
  shows "length (convertAll svgToPng icons) = card (entryName ''png'' ` {i \<in> set icons. svgToPng i \<noteq> None})"
proof -
  have "length (convertAll svgToPng icons) = length (map fst (convertAll svgToPng icons))" by simp
  also have "\<dots> = card (set (map fst (convertAll svgToPng icons)))"
    using convertAll_keys(1) [OF assms] by (simp only: distinct_card)
  finally show ?thesis by (simp only: convertAll_keys(2) [OF assms])
qed

lemma convertAll_length_distinct:
  assumes "distinct (map (entryName ''png'') (filter (\<lambda>i. svgToPng i \<noteq> None) icons))"
    and "\<forall>i \<in> set icons. svgToPng i \<noteq> None \<longrightarrow> CHR ''/'' \<notin> set (entryName ''png'' i)"
  shows "length (convertAll svgToPng icons) = length (filter (\<lambda>i. svgToPng i \<noteq> None) icons)"
proof -
  let ?ok = "filter (\<lambda>i. svgToPng i \<noteq> None) icons"
  have "{i \<in> set icons. svgToPng i \<noteq> None} = set ?ok" by auto
  then have "length (convertAll svgToPng icons) = card (set (map (entryName ''png'') ?ok))"
    by (simp add: convertAll_length [OF assms(2)])
  also have "\<dots> = length (map (entryName ''png'') ?ok)"
    using assms(1) by (rule distinct_card)
  finally show ?thesis by simp
qed

lemma length_filter_split:
  "length (filter P xs) + length (filter (\<lambda>x. \<not> P x) xs) = length xs"
  by (induction xs) simp_all

lemma filter_settled:
  assumes "mset settled = mset icons"
  shows "length (filter P settled) = length (filter P icons)"
    and "distinct (map f (filter P settled)) \<longleftrightarrow> distinct (map f (filter P icons))"
proof -
  from assms have m: "mset (filter P settled) = mset (filter P icons)"
    by (simp add: mset_filter)
  then show "length (filter P settled) = length (filter P icons)"
    by (rule mset_eq_length)
  from m have "mset (map f (filter P settled)) = mset (map f (filter P icons))"
    by simp
  then show "distinct (map f (filter P settled)) \<longleftrightarrow> distinct (map f (filter P icons))"
    by (rule mset_eq_imp_distinct_iff)
qed

text \<open>The guard of the export: a call while an export is in flight does nothing.\<close>

lemma downloadAllPng_in_flight:
  "isDownloading s \<Longrightarrow> downloadAllPng svgToPng completion generateOk p s = (Ignored, s)"
  by (simp add: downloadAllPng_def)

lemma downloadAllPng_sets_flag:
  "\<not> isDownloading s \<Longrightarrow>
   isDownloading (snd (downloadAllPng svgToPng completion generateOk p s))
     \<longleftrightarrow> fst (downloadAllPng svgToPng completion generateOk p s) \<noteq> ConvertFailed"
  by (simp add: downloadAllPng_def Let_def)

lemma resetDownloading_idle: "\<not> isDownloading (resetDownloading s)"
  by (simp add: resetDownloading_def)

text \<open>
  Claim C5, as amended. When no export is in flight, exactly one record of the
  collection of N records fails to convert, and the entry names of the converted
  records are pairwise distinct and free of slashes, then in whatever order the
  conversions settle the archive has exactly N - 1 entries; the export reports the
  conversion failure when N - 1 = 0, and otherwise reports success with that archive,
  provided that generating the archive succeeds.
\<close>

theorem downloadAllPng_one_failure:
  assumes idle: "\<not> isDownloading s"
    and settle: "mset (completion (deref s (allIconList s))) = mset (deref s (allIconList s))"
    and one: "length (filter (\<lambda>i. svgToPng i = None) (deref s (allIconList s))) = 1"
    and names: "distinct (map (entryName ''png'') (filter (\<lambda>i. svgToPng i \<noteq> None) (deref s (allIconList s))))"
    and slash: "\<forall>i \<in> set (filter (\<lambda>i. svgToPng i \<noteq> None) (deref s (allIconList s))).
                  CHR ''/'' \<notin> set (entryName ''png'' i)"
  shows "length (convertAll svgToPng (completion (deref s (allIconList s)))) = length (allIconList s) - 1
    \<and> fst (downloadAllPng svgToPng completion generateOk p s) =
       (if length (allIconList s) - 1 = 0 then ConvertFailed
        else if generateOk (convertAll svgToPng (completion (deref s (allIconList s))))
          then Downloaded (baseFilename ''icons-png'' p @ ''-png.zip'')
                 (convertAll svgToPng (completion (deref s (allIconList s))))
          else ZipFailed)"
proof -
  let ?icons = "deref s (allIconList s)"
  let ?settled = "completion ?icons"
  have "length (filter (\<lambda>i. svgToPng i = None) ?icons)
      + length (filter (\<lambda>i. \<not> svgToPng i = None) ?icons) = length ?icons"
    by (rule length_filter_split)
  with one have ok: "length (filter (\<lambda>i. svgToPng i \<noteq> None) ?icons) = length ?icons - 1" by simp
  have "set ?settled = set ?icons"
    using settle by (rule mset_eq_setD)
  with slash have free: "\<forall>i \<in> set ?settled. svgToPng i \<noteq> None \<longrightarrow> CHR ''/'' \<notin> set (entryName ''png'' i)"
    by simp
  have "distinct (map (entryName ''png'') (filter (\<lambda>i. svgToPng i \<noteq> None) ?settled))"
    using names by (simp only: filter_settled(2) [OF settle])
  then have "length (convertAll svgToPng ?settled) = length (filter (\<lambda>i. svgToPng i \<noteq> None) ?settled)"
    using free by (rule convertAll_length_distinct)
  also have "\<dots> = length (filter (\<lambda>i. svgToPng i \<noteq> None) ?icons)"
    by (rule filter_settled(1) [OF settle])
  finally have len: "length (convertAll svgToPng ?settled) = length (allIconList s) - 1"
    using ok by (simp add: deref_def)
  have same: "deref (s\<lparr>isDownloading := True\<rparr>) (allIconList s) = ?icons"
    by (simp add: deref_def)
  have emp: "convertAll svgToPng ?settled = [] \<longleftrightarrow> length (allIconList s) - 1 = 0"
    using len by (simp only: length_0_conv [symmetric])
  show ?thesis
    using idle len by (simp add: downloadAllPng_def Let_def same emp)
qed

text \<open>
  Claim C5 as stated fails when two converted records share a name: of the three
  records A, A and B, only B fails, and the archive has one entry, not two.
\<close>

theorem downloadAllPng_one_failure_counterexample:
  "length (allIconList exampleListDup) = 3
   \<and> length (filter (\<lambda>i. exampleSvgToPng i = None) (deref exampleListDup (allIconList exampleListDup))) = 1
   \<and> fst (downloadAllPng exampleSvgToPng id (\<lambda>z. True) exampleProps exampleListDup)
      = Downloaded ''a-png.zip'' [(''A.png'', ZipFile ''<path/>'')]
   \<and> length (convertAll exampleSvgToPng (id (deref exampleListDup (allIconList exampleListDup)))) \<noteq> 3 - 1"
  by code_simp

text \<open>
  Claim C5, as amended, at the records A and B of which B fails and settles first (one
  entry, success), and at the single record B (no entry, failure).
\<close>

theorem downloadAllPng_one_failure_witness:
  "length (convertAll exampleSvgToPng (rev (deref exampleList (allIconList exampleList)))) = 1
   \<and> fst (downloadAllPng exampleSvgToPng rev (\<lambda>z. True) exampleProps exampleList)
      = Downloaded ''a-png.zip'' [(''A.png'', ZipFile ''<path/>'')]
   \<and> length (convertAll exampleSvgToPng (rev (deref exampleListOne (allIconList exampleListOne)))) = 0
   \<and> fst (downloadAllPng exampleSvgToPng rev (\<lambda>z. True) exampleProps exampleListOne) = ConvertFailed"
proof -
  have a1: "\<not> isDownloading exampleList" by code_simp
  have a2: "length (filter (\<lambda>i. exampleSvgToPng i = None) (deref exampleList (allIconList exampleList))) = 1"
    by code_simp
  have a3: "distinct (map (entryName ''png'')
      (filter (\<lambda>i. exampleSvgToPng i \<noteq> None) (deref exampleList (allIconList exampleList))))"
    by code_simp
  have a4: "\<forall>i \<in> set (filter (\<lambda>i. exampleSvgToPng i \<noteq> None) (deref exampleList (allIconList exampleList))).
      CHR ''/'' \<notin> set (entryName ''png'' i)"
    by code_simp
  have b1: "\<not> isDownloading exampleListOne" by code_simp
  have b2: "length (filter (\<lambda>i. exampleSvgToPng i = None) (deref exampleListOne (allIconList exampleListOne))) = 1"
    by code_simp
  have b3: "distinct (map (entryName ''png'')
      (filter (\<lambda>i. exampleSvgToPng i \<noteq> None) (deref exampleListOne (allIconList exampleListOne))))"
    by code_simp
  have b4: "\<forall>i \<in> set (filter (\<lambda>i. exampleSvgToPng i \<noteq> None) (deref exampleListOne (allIconList exampleListOne))).
      CHR ''/'' \<notin> set (entryName ''png'' i)"
    by code_simp
  have ra: "mset (rev (deref exampleList (allIconList exampleList)))
      = mset (deref exampleList (allIconList exampleList))" by simp
  have rb: "mset (rev (deref exampleListOne (allIconList exampleListOne)))
      = mset (deref exampleListOne (allIconList exampleListOne))" by simp
  have v: "convertAll exampleSvgToPng (rev (deref exampleList (allIconList exampleList)))
      = [(''A.png'', ZipFile ''<path/>'')]"
    by code_simp
  have n: "baseFilename ''icons-png'' exampleProps @ ''-png.zip'' = ''a-png.zip''" by code_simp
  have la: "length (allIconList exampleList) = 2" and lb: "length (allIconList exampleListOne) = 1"
    by (simp_all add: exampleList_def exampleListOne_def)
  from downloadAllPng_one_failure
      [of exampleList rev exampleSvgToPng "\<lambda>z. True" exampleProps, OF a1 ra a2 a3 a4]
    downloadAllPng_one_failure
      [of exampleListOne rev exampleSvgToPng "\<lambda>z. True" exampleProps, OF b1 rb b2 b3 b4]
  show ?thesis by (simp add: v n la lb)
qed

section \<open>Properties of the icon detail controller\<close>

lemma render_isGridVisible: "isGridVisible (render d) = isGridVisible d"
  by (simp add: render_def split: option.splits)

lemma closeSession_unmounts: "svgElement (closeSession d) = None"
  by (simp add: closeSession_def render_def)

lemma session_isGridVisible:
  "isGridVisible (openSession icon (closeSession d)) = isGridVisible d"
  by (simp add: openSession_def closeSession_def render_isGridVisible openModal_def)

text \<open>
  Claim C10, as amended. \<^verbatim>\<open>openModal\<close> sets the rotation to 0, the scale to 1 and the
  offset to (0, 0), and assigns neither the grid flag nor the style of the element. The
  grid flag persists across detail sessions: a grid toggled in one session is still
  toggled in the next, over any number of sessions for any records. The fill colour
  does not: closing the modal unmounts the element, and the element of the next session
  is a new one without a fill, whatever colour was chosen before.
\<close>

theorem openModal_resets_transform_only:
  "rotationAngle (openModal icon d) = 0
   \<and> scaleFactor (openModal icon d) = 1
   \<and> positionOffset (openModal icon d) = (0, 0)
   \<and> isGridVisible (openModal icon d) = isGridVisible d
   \<and> svgElement (openModal icon d) = svgElement d
   \<and> rotationAngle (openSession icon (closeSession d)) = 0
   \<and> scaleFactor (openSession icon (closeSession d)) = 1
   \<and> positionOffset (openSession icon (closeSession d)) = (0, 0)
   \<and> isGridVisible (openSession icon (closeSession d)) = isGridVisible d
   \<and> isGridVisible (openSession icon (closeSession (toggleGridVisibility d))) = (\<not> isGridVisible d)
   \<and> isGridVisible (fold (\<lambda>icon d. openSession icon (closeSession d)) icons d) = isGridVisible d
   \<and> svgElement (openSession icon (closeSession d)) = Some newElement
   \<and> map_option style_fill (svgElement (openSession icon (closeSession d))) = Some []"
proof -
  have t: "rotationAngle (render x) = rotationAngle x" "scaleFactor (render x) = scaleFactor x"
    "positionOffset (render x) = positionOffset x" for x
    by (simp_all add: render_def split: option.splits)
  have o: "rotationAngle (openModal icon x) = 0" "scaleFactor (openModal icon x) = 1"
    "positionOffset (openModal icon x) = (0, 0)" "isGridVisible (openModal icon x) = isGridVisible x"
    "svgElement (openModal icon x) = svgElement x" for x
    by (simp_all add: openModal_def)
  have r: "rotationAngle (openSession icon x) = 0" "scaleFactor (openSession icon x) = 1"
    "positionOffset (openSession icon x) = (0, 0)" for x
    by (simp_all add: openSession_def t o)
  have g: "isGridVisible (fold (\<lambda>icon d. openSession icon (closeSession d)) icons d) = isGridVisible d"
    by (induction icons arbitrary: d) (simp_all add: session_isGridVisible)
  have tg: "isGridVisible (openSession icon (closeSession (toggleGridVisibility d))) = (\<not> isGridVisible d)"
    by (simp add: session_isGridVisible toggleGridVisibility_def)
  have e: "svgElement (openSession icon (closeSession d)) = Some newElement"
    by (simp add: openSession_def closeSession_def render_def openModal_def)
  have f: "map_option style_fill (svgElement (openSession icon (closeSession d))) = Some []"
    by (simp add: e newElement_def)
  show ?thesis
    using o [of d] r [of "closeSession d"] session_isGridVisible [of icon d] g tg e f
    by simp
qed

text \<open>
  Claim C10 as stated fails for the fill colour: the colour chosen in the session for
  record 0 is the fill of its element, and after the modal is closed and opened for
  record 1 the element has no fill.
\<close>

theorem openModal_resets_transform_only_counterexample:
  "updateColor exampleCssFill ''#ff0000'' (openSession 0 exampleDetail) = Inr exampleColoured
   \<and> map_option style_fill (svgElement exampleColoured) = Some ''rgb(255, 0, 0)''
   \<and> map_option style_fill (svgElement (openSession 1 (closeSession exampleColoured))) = Some []
   \<and> svgElement (openSession 1 (closeSession exampleColoured)) \<noteq> svgElement exampleColoured"
  by (simp add: updateColor_def openSession_def closeSession_def render_def openModal_def
      exampleDetail_def exampleColoured_def exampleCssFill_def newElement_def)

end
